theory Spec2Isabelle
  imports Complex_Main
begin

section \<open>Numeric values and errors\<close>

text \<open>
  The metrics of \<^verbatim>\<open>skmetrics\<close> compute with NumPy floating-point arrays. A value is
  modelled as a real number or one of the special values that NumPy produces instead of
  raising: the two infinities (\<open>Inf True\<close> is plus infinity, \<open>Inf False\<close> minus infinity)
  and not-a-number. Finite arithmetic is exact: rounding, overflow and signed zeros are
  left out of the model. An exception of the Python code is a value \<open>Inl e\<close> of the result.
\<close>

datatype fl = Fin real | Inf bool | NaN

datatype error = ValueError | IndexError | ZeroDivisionError

fun is_finite :: "fl \<Rightarrow> bool" where
  "is_finite (Fin r) = True"
| "is_finite (Inf s) = False"
| "is_finite NaN = False"

fun fl_add :: "fl \<Rightarrow> fl \<Rightarrow> fl" where
  "fl_add (Fin a) (Fin b) = Fin (a + b)"
| "fl_add (Fin a) (Inf t) = Inf t"
| "fl_add (Inf s) (Fin b) = Inf s"
| "fl_add (Inf s) (Inf t) = (if s = t then Inf s else NaN)"
| "fl_add NaN y = NaN"
| "fl_add x NaN = NaN"

fun fl_mul :: "fl \<Rightarrow> fl \<Rightarrow> fl" where
  "fl_mul (Fin a) (Fin b) = Fin (a * b)"
| "fl_mul (Fin a) (Inf t) = (if a = 0 then NaN else Inf (t = (0 < a)))"
| "fl_mul (Inf s) (Fin b) = (if b = 0 then NaN else Inf (s = (0 < b)))"
| "fl_mul (Inf s) (Inf t) = Inf (s = t)"
| "fl_mul NaN y = NaN"
| "fl_mul x NaN = NaN"

fun fl_div :: "fl \<Rightarrow> fl \<Rightarrow> fl" where
  "fl_div (Fin a) (Fin b) =
     (if b \<noteq> 0 then Fin (a / b) else if a = 0 then NaN else Inf (0 < a))"
| "fl_div (Fin a) (Inf t) = Fin 0"
| "fl_div (Inf s) (Fin b) = Inf (s = (0 \<le> b))"
| "fl_div (Inf s) (Inf t) = NaN"
| "fl_div NaN y = NaN"
| "fl_div x NaN = NaN"

text \<open>
  \<open>fl_root x c\<close> is the NumPy scalar power \<^verbatim>\<open>x ** (1.0 / c)\<close> for a positive count
  \<open>c\<close>: the exponent is \<open>1\<close> when \<open>c = 1\<close> and a non-integer in \<open>(0, 1)\<close> otherwise, where a
  negative base gives not-a-number and minus infinity gives plus infinity.
\<close>

fun fl_root :: "fl \<Rightarrow> nat \<Rightarrow> fl" where
  "fl_root (Fin r) c =
     (if 0 \<le> r then Fin (r powr (1 / real c)) else if c = 1 then Fin r else NaN)"
| "fl_root (Inf s) c = (if s then Inf True else if c = 1 then Inf False else Inf True)"
| "fl_root NaN c = NaN"

text \<open>\<^verbatim>\<open>ndarray.sum\<close> and \<^verbatim>\<open>np.prod\<close> over a vector.\<close>

fun fl_sum :: "fl list \<Rightarrow> fl" where
  "fl_sum [] = Fin 0"
| "fl_sum (x # xs) = fl_add x (fl_sum xs)"

fun fl_prod :: "fl list \<Rightarrow> fl" where
  "fl_prod [] = Fin 1"
| "fl_prod (x # xs) = fl_mul x (fl_prod xs)"

section \<open>Regression: relative mean absolute error\<close>

text \<open>
  NumPy broadcasting of a binary operation over two vectors: equal lengths combine
  pointwise, a vector of length one is stretched, anything else raises \<^verbatim>\<open>ValueError\<close>.
\<close>

definition np_broadcast :: "('a \<Rightarrow> 'b \<Rightarrow> 'c) \<Rightarrow> 'a list \<Rightarrow> 'b list \<Rightarrow> error + 'c list" where
  "np_broadcast f xs ys =
     (if length xs = length ys then Inr (map2 f xs ys)
      else if length xs = 1 then Inr (map (f (hd xs)) ys)
      else if length ys = 1 then Inr (map (\<lambda>x. f x (hd ys)) xs)
      else Inl ValueError)"

text \<open>
  \<^verbatim>\<open>np.average(a, weights=w, axis=0)\<close> on a vector. Without weights it is the mean, which
  is not-a-number on the empty vector. With weights, a length mismatch raises
  \<^verbatim>\<open>ValueError\<close>, weights summing to zero raise \<^verbatim>\<open>ZeroDivisionError\<close>, and the
  result is \<^verbatim>\<open>multiply(a, w).sum() / w.sum()\<close>.
\<close>

definition np_average :: "fl list \<Rightarrow> real list option \<Rightarrow> error + fl" where
  "np_average a weights =
     (case weights of
        None \<Rightarrow> Inr (fl_div (fl_sum a) (Fin (real (length a))))
      | Some wgt \<Rightarrow>
          if length a \<noteq> length wgt then Inl ValueError
          else if sum_list wgt = 0 then Inl ZeroDivisionError
          else Inr (fl_div (fl_sum (map2 fl_mul a (map Fin wgt))) (Fin (sum_list wgt))))"

text \<open>The first statement of the function: \<^verbatim>\<open>np.abs(y_pred - y_true) / np.abs(y_true)\<close>.\<close>

definition relative_abs_diff :: "real list \<Rightarrow> real list \<Rightarrow> error + fl list" where
  "relative_abs_diff y_true y_pred =
     (case np_broadcast (\<lambda>p t. \<bar>p - t\<bar>) y_pred y_true of
        Inl e \<Rightarrow> Inl e
      | Inr num \<Rightarrow> np_broadcast (\<lambda>n t. fl_div (Fin n) (Fin \<bar>t\<bar>)) num y_true)"

definition relative_mean_absolute_error ::
    "real list \<Rightarrow> real list \<Rightarrow> real list option \<Rightarrow> error + fl" where
  "relative_mean_absolute_error y_true y_pred sample_weight =
     (case relative_abs_diff y_true y_pred of
        Inl e \<Rightarrow> Inl e
      | Inr diff \<Rightarrow> np_average diff sample_weight)"

section \<open>Library operations on label vectors and arrays\<close>

text \<open>
  The classification metrics call NumPy and scikit-learn. Those functions are not part of
  this repository; the model follows their documented behaviour.

  \<^verbatim>\<open>np.unique\<close> returns the distinct values in ascending order.
\<close>

definition np_unique :: "'a::linorder list \<Rightarrow> 'a list" where
  "np_unique xs = sort (remdups xs)"

text \<open>Collecting the results of a comprehension or loop: the first exception wins.\<close>

fun sequence :: "(error + 'a) list \<Rightarrow> error + 'a list" where
  "sequence [] = Inr []"
| "sequence (x # xs) =
     (case x of
        Inl e \<Rightarrow> Inl e
      | Inr v \<Rightarrow> (case sequence xs of Inl e \<Rightarrow> Inl e | Inr vs \<Rightarrow> Inr (v # vs)))"

text \<open>
  \<^verbatim>\<open>check_clusterings\<close> accepts two one-dimensional label vectors of the same shape and
  raises \<^verbatim>\<open>ValueError\<close> otherwise.
\<close>

definition check_clusterings :: "int list \<Rightarrow> int list \<Rightarrow> error + (int list \<times> int list)" where
  "check_clusterings labels_true labels_pred =
     (if length labels_true \<noteq> length labels_pred then Inl ValueError
      else Inr (labels_true, labels_pred))"

text \<open>
  \<^verbatim>\<open>contingency_matrix\<close>: entry \<open>(i, j)\<close> counts the samples whose true label is the
  \<open>i\<close>-th distinct true label and whose predicted label is the \<open>j\<close>-th distinct predicted
  label; \<open>eps\<close>, when given, is added to every entry. Asking for \<open>eps\<close> together with
  \<open>sparse\<close> raises \<^verbatim>\<open>ValueError\<close> before anything is computed. The sparse matrix holds
  the same entries as the dense one.
\<close>

definition contingency_matrix ::
    "int list \<Rightarrow> int list \<Rightarrow> real option \<Rightarrow> bool \<Rightarrow> error + real list list" where
  "contingency_matrix labels_true labels_pred eps sparse =
     (if eps \<noteq> None \<and> sparse then Inl ValueError
      else
        let classes = np_unique labels_true;
            clusters = np_unique labels_pred;
            pairs = zip labels_true labels_pred
        in Inr (map (\<lambda>a. map (\<lambda>b. real (count_list pairs (a, b)) +
                                   (case eps of None \<Rightarrow> 0 | Some e \<Rightarrow> e)) clusters) classes))"

text \<open>\<^verbatim>\<open>c.diagonal()\<close>: the entries \<open>(i, i)\<close> up to the smaller dimension.\<close>

definition diagonal :: "'a list list \<Rightarrow> 'a list" where
  "diagonal c =
     (case c of
        [] \<Rightarrow> []
      | r # _ \<Rightarrow> map (\<lambda>i. c ! i ! i) [0..<min (length c) (length r)])"

section \<open>Classification: G-score\<close>

text \<open>
  \<^verbatim>\<open>d.reshape([len(d), 1]) / c.sum(axis=1).ravel()\<close> divides a column of shape
  \<open>(k, 1)\<close> by a vector of shape \<open>(R,)\<close>: by broadcasting the quotient \<open>true_rates\<close> is the
  \<open>k \<times> R\<close> table of every diagonal entry divided by every row sum, and \<^verbatim>\<open>np.prod\<close>
  multiplies all its entries. On the empty input the matrix has no rows and
  \<^verbatim>\<open>1.0 / c.shape[0]\<close> raises \<^verbatim>\<open>ZeroDivisionError\<close>.
\<close>

definition true_rates :: "real list list \<Rightarrow> fl list list" where
  "true_rates c =
     map (\<lambda>di. map (\<lambda>s. fl_div (Fin di) (Fin s)) (map sum_list c)) (diagonal c)"

definition g_score :: "int list \<Rightarrow> int list \<Rightarrow> real option \<Rightarrow> bool \<Rightarrow> error + fl" where
  "g_score y_true y_pred eps sparse =
     (case check_clusterings y_true y_pred of
        Inl e \<Rightarrow> Inl e
      | Inr (yt, yp) \<Rightarrow>
          (case contingency_matrix yt yp eps sparse of
             Inl e \<Rightarrow> Inl e
           | Inr c \<Rightarrow>
               if length c = 0 then Inl ZeroDivisionError
               else Inr (fl_root (fl_prod (concat (true_rates c))) (length c))))"

text \<open>
  The score as the specification words it: the geometric mean of the per-class true
  rates, each the diagonal entry of a class divided by the row sum of the same class.
\<close>

definition geometric_mean_true_rates :: "real list list \<Rightarrow> fl" where
  "geometric_mean_true_rates c =
     fl_root (fl_prod (map2 (\<lambda>di s. fl_div (Fin di) (Fin s)) (diagonal c) (map sum_list c)))
       (length c)"

section \<open>Classification: geometric ROC AUC\<close>

text \<open>
  \<^verbatim>\<open>OneHotEncoder().fit_transform\<close> on the label column, for non-negative integer
  labels: one indicator column per distinct label, in ascending label order. The dense
  matrix is kept as the list of its columns. An input without samples raises
  \<^verbatim>\<open>ValueError\<close>.
\<close>

definition one_hot_encode :: "nat list \<Rightarrow> error + bool list list" where
  "one_hot_encode y =
     (if y = [] then Inl ValueError
      else Inr (map (\<lambda>c. map (\<lambda>l. l = c) y) (np_unique y)))"

text \<open>
  A two-dimensional array: its rows, each with one entry per column, and the number of
  columns of its shape.
\<close>

record array2d =
  ncols :: nat
  rows :: "real list list"

text \<open>\<^verbatim>\<open>a[:, i]\<close> raises \<^verbatim>\<open>IndexError\<close> when \<open>i\<close> is not a column of the array.\<close>

definition column_of :: "array2d \<Rightarrow> nat \<Rightarrow> error + real list" where
  "column_of a i =
     (if i < ncols a then Inr (map (\<lambda>r. r ! i) (rows a)) else Inl IndexError)"

text \<open>
  The library calls \<^verbatim>\<open>roc_curve\<close> and \<^verbatim>\<open>auc\<close>, with the options the caller passed,
  are parameters \<open>rc\<close> and \<open>au\<close> of the model. One pass of the loop body:
\<close>

definition class_auc ::
    "(bool list \<Rightarrow> real list \<Rightarrow> error + (fl list \<times> fl list)) \<Rightarrow>
     (fl list \<Rightarrow> fl list \<Rightarrow> error + fl) \<Rightarrow>
     bool list list \<Rightarrow> array2d \<Rightarrow> nat \<Rightarrow> error + fl" where
  "class_auc rc au y_cols y_score i =
     (case column_of y_score i of
        Inl e \<Rightarrow> Inl e
      | Inr s \<Rightarrow>
          (case rc (y_cols ! i) s of
             Inl e \<Rightarrow> Inl e
           | Inr (fpr, tpr) \<Rightarrow> au fpr tpr))"

definition classes_auc ::
    "(bool list \<Rightarrow> real list \<Rightarrow> error + (fl list \<times> fl list)) \<Rightarrow>
     (fl list \<Rightarrow> fl list \<Rightarrow> error + fl) \<Rightarrow>
     nat list \<Rightarrow> array2d \<Rightarrow> error + fl list" where
  "classes_auc rc au y_true y_score =
     (let n_classes = length (np_unique y_true)
      in case one_hot_encode y_true of
           Inl e \<Rightarrow> Inl e
         | Inr y_cols \<Rightarrow> sequence (map (class_auc rc au y_cols y_score) [0..<n_classes]))"

definition geometric_roc_auc_score ::
    "(bool list \<Rightarrow> real list \<Rightarrow> error + (fl list \<times> fl list)) \<Rightarrow>
     (fl list \<Rightarrow> fl list \<Rightarrow> error + fl) \<Rightarrow>
     nat list \<Rightarrow> array2d \<Rightarrow> error + fl" where
  "geometric_roc_auc_score rc au y_true y_score =
     (let n_classes = length (np_unique y_true)
      in case classes_auc rc au y_true y_score of
           Inl e \<Rightarrow> Inl e
         | Inr aucs \<Rightarrow>
             if n_classes = 0 then Inl ZeroDivisionError
             else Inr (fl_root (fl_prod aucs) n_classes))"

text \<open>
  For the concrete runs below, \<^verbatim>\<open>roc_curve\<close> and \<^verbatim>\<open>auc\<close> are modelled with
  their default \<^verbatim>\<open>pos_label\<close>, \<^verbatim>\<open>sample_weight\<close> and \<^verbatim>\<open>reorder\<close>, and with
  \<^verbatim>\<open>drop_intermediate\<close> off. The curve starts at the origin and has one point for each
  distinct score, taken as threshold in descending order: the counts of positives and of
  negatives scored at or above it, each divided by its total; a total of zero makes the rate
  not-a-number. The area is the trapezoidal rule; it raises \<^verbatim>\<open>ValueError\<close> on fewer than
  two points and on abscissae that are neither increasing nor decreasing.
\<close>

fun fl_sub :: "fl \<Rightarrow> fl \<Rightarrow> fl" where
  "fl_sub (Fin a) (Fin b) = Fin (a - b)"
| "fl_sub (Fin a) (Inf t) = Inf (\<not> t)"
| "fl_sub (Inf s) (Fin b) = Inf s"
| "fl_sub (Inf s) (Inf t) = (if s = t then NaN else Inf s)"
| "fl_sub NaN y = NaN"
| "fl_sub x NaN = NaN"

fun fl_less :: "fl \<Rightarrow> fl \<Rightarrow> bool" where
  "fl_less (Fin a) (Fin b) = (a < b)"
| "fl_less (Fin a) (Inf t) = t"
| "fl_less (Inf s) (Fin b) = (\<not> s)"
| "fl_less (Inf s) (Inf t) = (\<not> s \<and> t)"
| "fl_less NaN y = False"
| "fl_less x NaN = False"

fun fl_le :: "fl \<Rightarrow> fl \<Rightarrow> bool" where
  "fl_le (Fin a) (Fin b) = (a \<le> b)"
| "fl_le (Fin a) (Inf t) = t"
| "fl_le (Inf s) (Fin b) = (\<not> s)"
| "fl_le (Inf s) (Inf t) = (\<not> s \<or> t)"
| "fl_le NaN y = False"
| "fl_le x NaN = False"

definition rates :: "real list \<Rightarrow> fl list" where
  "rates counts =
     (if last counts \<le> 0 then map (\<lambda>_. NaN) counts
      else map (\<lambda>v. Fin (v / last counts)) counts)"

definition sk_roc_curve :: "bool list \<Rightarrow> real list \<Rightarrow> error + (fl list \<times> fl list)" where
  "sk_roc_curve y_true y_score =
     (if length y_true \<noteq> length y_score then Inl ValueError
      else
        let pairs = zip y_true y_score;
            thresholds = rev (np_unique y_score);
            tps = 0 # map (\<lambda>t. real (length (filter (\<lambda>(y, s). y \<and> t \<le> s) pairs))) thresholds;
            fps = 0 # map (\<lambda>t. real (length (filter (\<lambda>(y, s). \<not> y \<and> t \<le> s) pairs))) thresholds
        in Inr (rates fps, rates tps))"

definition np_diff :: "fl list \<Rightarrow> fl list" where
  "np_diff x = map2 (\<lambda>a b. fl_sub b a) (butlast x) (tl x)"

definition np_trapz :: "fl list \<Rightarrow> fl list \<Rightarrow> fl" where
  "np_trapz y x =
     fl_sum (map2 (\<lambda>d (a, b). fl_div (fl_mul d (fl_add b a)) (Fin 2))
               (np_diff x) (zip (butlast y) (tl y)))"

definition sk_auc :: "fl list \<Rightarrow> fl list \<Rightarrow> error + fl" where
  "sk_auc x y =
     (if length x \<noteq> length y then Inl ValueError
      else if length x < 2 then Inl ValueError
      else if list_ex (\<lambda>d. fl_less d (Fin 0)) (np_diff x) then
        (if list_all (\<lambda>d. fl_le d (Fin 0)) (np_diff x)
         then Inr (fl_mul (Fin (- 1)) (np_trapz y x))
         else Inl ValueError)
      else Inr (fl_mul (Fin 1) (np_trapz y x)))"

section \<open>Classification: separability score\<close>









section \<open>Notions used in the statements and proofs\<close>

text \<open>The array made of the first \<open>c\<close> columns of an array.\<close>

definition first_columns :: "nat \<Rightarrow> array2d \<Rightarrow> array2d" where
  "first_columns c a = \<lparr>ncols = c, rows = map (take c) (rows a)\<rparr>"




section \<open>Properties of the relative mean absolute error\<close>

lemma map2_map2_same:
  "map2 g (map2 f xs ys) ys = map2 (\<lambda>x y. g (f x y) y) xs ys"
proof (induction xs arbitrary: ys)
  case Nil
  then show ?case by simp
next
  case (Cons x xs)
  then show ?case by (cases ys) simp_all
qed

lemma relative_abs_diff_eq_len:
  "length y_true = length y_pred \<Longrightarrow>
   relative_abs_diff y_true y_pred =
     Inr (map2 (\<lambda>p t. fl_div (Fin \<bar>p - t\<bar>) (Fin \<bar>t\<bar>)) y_pred y_true)"
  by (simp add: relative_abs_diff_def np_broadcast_def map2_map2_same)





















text \<open>
  Claim C10. With vectors of equal length and weights that sum to zero, the weighted
  averaging raises and no value is returned: \<^verbatim>\<open>ZeroDivisionError\<close> when there is one
  weight per sample, \<^verbatim>\<open>ValueError\<close> for a weight vector of another length.
\<close>

theorem rmae_zero_weight_sum_raises:
  assumes "length y_true = length y_pred" and "sum_list sample_weight = 0"
  shows "relative_mean_absolute_error y_true y_pred (Some sample_weight) =
         Inl (if length sample_weight = length y_true then ZeroDivisionError else ValueError)"
  using assms
  by (simp add: relative_mean_absolute_error_def relative_abs_diff_eq_len np_average_def)

theorem rmae_zero_weight_sum_raises_witness:
  "length [1, 2, 4 :: real] = length [1, 2, 3 :: real] \<and> sum_list [0, 0, 0 :: real] = 0 \<and>
   relative_mean_absolute_error [1, 2, 4] [1, 2, 3] (Some [0, 0, 0]) = Inl ZeroDivisionError"
  using rmae_zero_weight_sum_raises [of "[1, 2, 4]" "[1, 2, 3]" "[0, 0, 0]"] by simp

section \<open>Properties of the G-score\<close>

lemma np_unique_set [simp]: "set (np_unique xs) = set xs"
  by (simp add: np_unique_def)

lemma np_unique_distinct [simp]: "distinct (np_unique xs)"
  by (simp add: np_unique_def)

lemma np_unique_empty_iff [simp]: "np_unique xs = [] \<longleftrightarrow> xs = []"
  by (metis np_unique_set set_empty)

lemma half_root_quarter: "(1 / 4 :: real) powr (1 / 2) = 1 / 2"
proof -
  have "(1 / 4 :: real) powr (1 / 2) = sqrt (1 / 4)" by (simp add: powr_half_sqrt)
  also have "\<dots> = 1 / 2" by (simp add: real_sqrt_divide)
  finally show ?thesis .
qed

lemma cm_example:
  "contingency_matrix [0, 0, 1, 1] [0, 1, 1, 1] None False = Inr [[1, 1], [0, 2]]"
  by (simp add: contingency_matrix_def np_unique_def)

text \<open>
  Claim C1. The specification has \<open>g_score\<close> return the geometric mean of the per-class
  true rates. The code does not: on \<open>y_true = [0, 0, 1, 1]\<close>, \<open>y_pred = [0, 1, 1, 1]\<close> the
  contingency matrix is \<open>[[1, 1], [0, 2]]\<close>, the true rates are \<open>1/2\<close> and \<open>1\<close> and
  their geometric mean is \<open>sqrt (1/2)\<close>, while the code multiplies the four quotients
  \<open>1/2, 1/2, 1, 1\<close> of its broadcast table and returns \<open>(1/4) ** (1/2) = 1/2\<close>.
\<close>

theorem g_score_not_geometric_mean:
  "contingency_matrix [0, 0, 1, 1] [0, 1, 1, 1] None False = Inr [[1, 1], [0, 2]] \<and>
   g_score [0, 0, 1, 1] [0, 1, 1, 1] None False = Inr (Fin (1 / 2)) \<and>
   geometric_mean_true_rates [[1, 1], [0, 2]] = Fin (sqrt (1 / 2)) \<and>
   sqrt (1 / 2) \<noteq> (1 / 2 :: real)"
proof (intro conjI)
  show cm: "contingency_matrix [0, 0, 1, 1] [0, 1, 1, 1] None False = Inr [[1, 1], [0, 2]]"
    by (rule cm_example)
  have "fl_prod (concat (true_rates [[1, 1], [0, 2]])) = Fin (1 / 4)"
    by (simp add: true_rates_def diagonal_def)
  then show "g_score [0, 0, 1, 1] [0, 1, 1, 1] None False = Inr (Fin (1 / 2))"
    by (simp add: g_score_def check_clusterings_def cm half_root_quarter)
  show "geometric_mean_true_rates [[1, 1], [0, 2]] = Fin (sqrt (1 / 2))"
    by (simp add: geometric_mean_true_rates_def diagonal_def powr_half_sqrt)
  show "sqrt (1 / 2) \<noteq> (1 / 2 :: real)"
  proof
    assume eq: "sqrt (1 / 2) = (1 / 2 :: real)"
    have "(sqrt (1 / 2))\<^sup>2 = (1 / 2 :: real)" by (rule real_sqrt_pow2) simp
    then have "(1 / 2 :: real)\<^sup>2 = 1 / 2" unfolding eq .
    then show False by (simp add: power2_eq_square)
  qed
qed

text \<open>
  Claim C5. Calling \<open>g_score\<close> with \<open>eps\<close> set and \<open>sparse\<close> true raises
  \<^verbatim>\<open>ValueError\<close> for every pair of label vectors. With \<open>sparse\<close> false every \<open>eps\<close>
  is accepted: on non-empty vectors of equal length a value is returned.
\<close>

theorem g_score_eps_sparse_exclusive:
  "g_score y_true y_pred (Some e) True = Inl ValueError \<and>
   (length y_true = length y_pred \<and> y_true \<noteq> [] \<longrightarrow>
      (\<exists>v. g_score y_true y_pred eps False = Inr v))"
  by (simp add: g_score_def check_clusterings_def contingency_matrix_def Let_def)

theorem g_score_eps_sparse_exclusive_witness:
  "g_score [0, 0, 1, 1] [0, 1, 1, 1] (Some (1 / 10)) True = Inl ValueError \<and>
   length [0, 0, 1, 1 :: int] = length [0, 1, 1, 1 :: int] \<and> [0, 0, 1, 1 :: int] \<noteq> [] \<and>
   (\<exists>v. g_score [0, 0, 1, 1] [0, 1, 1, 1] (Some (1 / 10)) False = Inr v)"
  using g_score_eps_sparse_exclusive [of "[0, 0, 1, 1]" "[0, 1, 1, 1]" "1 / 10" "Some (1 / 10)"]
  by simp















section \<open>Properties of the geometric ROC AUC\<close>

lemma sequence_error: "Inl e \<in> set xs \<Longrightarrow> \<exists>e'. sequence xs = Inl e'"
  by (induction xs) (auto split: sum.splits)

lemma fl_prod_zero:
  "Fin 0 \<in> set xs \<Longrightarrow> \<forall>x \<in> set xs. is_finite x \<Longrightarrow> fl_prod xs = Fin 0"
proof (induction xs)
  case Nil
  then show ?case by simp
next
  case (Cons x xs)
  from Cons.prems(2) obtain r where x: "x = Fin r" by (cases x) auto
  from Cons.prems(2) have "\<forall>x \<in> set xs. is_finite x" by simp
  then have "is_finite (fl_prod xs)"
  proof (induction xs)
    case Nil
    then show ?case by simp
  next
    case (Cons a as)
    then have "is_finite a" "is_finite (fl_prod as)" by auto
    then show ?case by (cases a; cases "fl_prod as") auto
  qed
  then obtain p where p: "fl_prod xs = Fin p" by (cases "fl_prod xs") auto
  show ?case
  proof (cases "r = 0")
    case True
    then show ?thesis by (simp add: x p)
  next
    case False
    with Cons.prems(1) x have "Fin 0 \<in> set xs" by auto
    with Cons.IH Cons.prems(2) have "fl_prod xs = Fin 0" by simp
    then show ?thesis by (simp add: x)
  qed
qed

text \<open>
  Claim C7. When the loop returns the per-class areas, all of them finite, and one of them
  is \<open>0\<close>, the function returns \<open>0\<close>.
\<close>

theorem geometric_roc_auc_zero_class:
  assumes aucs: "classes_auc rc au y_true y_score = Inr aucs"
    and zero: "Fin 0 \<in> set aucs"
    and fin: "\<forall>a \<in> set aucs. is_finite a"
  shows "geometric_roc_auc_score rc au y_true y_score = Inr (Fin 0)"
proof -
  let ?n = "length (np_unique y_true)"
  have "y_true \<noteq> []"
    using aucs by (auto simp: classes_auc_def one_hot_encode_def)
  then have n: "?n \<noteq> 0" by simp
  have "fl_prod aucs = Fin 0" using zero fin by (rule fl_prod_zero)
  then have "fl_root (fl_prod aucs) ?n = Fin 0" by simp
  then show ?thesis
    using n by (simp add: geometric_roc_auc_score_def aucs Let_def del: fl_root.simps)
qed

lemma auc_run_1:
  "classes_auc sk_roc_curve sk_auc [0, 1] \<lparr>ncols = 2, rows = [[0, 1], [1, 1]]\<rparr>
     = Inr [Fin 0, Fin (1 / 2)]"
  by (simp add: classes_auc_def one_hot_encode_def np_unique_def class_auc_def column_of_def
      sk_roc_curve_def sk_auc_def rates_def np_diff_def np_trapz_def upt_rec [of 0 2] upt_rec [of 1 2])

theorem geometric_roc_auc_zero_class_witness:
  "classes_auc sk_roc_curve sk_auc [0, 1] \<lparr>ncols = 2, rows = [[0, 1], [1, 1]]\<rparr>
     = Inr [Fin 0, Fin (1 / 2)] \<and>
   Fin 0 \<in> set [Fin 0, Fin (1 / 2)] \<and> is_finite (Fin 0) \<and> is_finite (Fin (1 / 2)) \<and>
   geometric_roc_auc_score sk_roc_curve sk_auc [0, 1] \<lparr>ncols = 2, rows = [[0, 1], [1, 1]]\<rparr>
     = Inr (Fin 0)"
  using geometric_roc_auc_zero_class [OF auc_run_1] auc_run_1 by simp

lemma column_of_first_columns:
  "i < c \<Longrightarrow> c \<le> ncols a \<Longrightarrow> column_of (first_columns c a) i = column_of a i"
  by (simp add: column_of_def first_columns_def)

lemma class_auc_first_columns:
  "i < c \<Longrightarrow> c \<le> ncols a \<Longrightarrow>
   class_auc rc au y_cols (first_columns c a) i = class_auc rc au y_cols a i"
  by (simp add: class_auc_def column_of_first_columns)

lemma classes_auc_missing_column:
  assumes "ncols y_score < length (np_unique y_true)"
  shows "\<exists>e. classes_auc rc au y_true y_score = Inl e"
proof -
  let ?n = "length (np_unique y_true)"
  have ne: "y_true \<noteq> []" using assms by (auto simp: np_unique_def)
  let ?cols = "map (\<lambda>c. map (\<lambda>l. l = c) y_true) (np_unique y_true)"
  have "class_auc rc au ?cols y_score (ncols y_score) = Inl IndexError"
    by (simp add: class_auc_def column_of_def)
  moreover have "ncols y_score \<in> set [0..<?n]" using assms by simp
  ultimately have "Inl IndexError \<in> set (map (class_auc rc au ?cols y_score) [0..<?n])"
    by (metis image_eqI set_map)
  then have "\<exists>e. sequence (map (class_auc rc au ?cols y_score) [0..<?n]) = Inl e"
    by (rule sequence_error)
  then show ?thesis
    using ne by (simp add: classes_auc_def one_hot_encode_def Let_def)
qed

text \<open>
  Claim C4, as amended. With fewer score columns than classes the function raises (the
  column access raises \<^verbatim>\<open>IndexError\<close> unless an earlier class already raised). With
  at least as many columns as classes the columns beyond the classes are never read: the
  result is that of the array cut to its first columns.
\<close>

theorem geometric_roc_auc_columns:
  "(ncols y_score < length (np_unique y_true) \<longrightarrow>
      (\<exists>e. geometric_roc_auc_score rc au y_true y_score = Inl e)) \<and>
   (length (np_unique y_true) \<le> ncols y_score \<longrightarrow>
      geometric_roc_auc_score rc au y_true y_score =
      geometric_roc_auc_score rc au y_true (first_columns (length (np_unique y_true)) y_score))"
proof (intro conjI impI)
  assume "ncols y_score < length (np_unique y_true)"
  then obtain e where "classes_auc rc au y_true y_score = Inl e"
    using classes_auc_missing_column by blast
  then show "\<exists>e. geometric_roc_auc_score rc au y_true y_score = Inl e"
    by (simp add: geometric_roc_auc_score_def Let_def)
next
  let ?n = "length (np_unique y_true)"
  assume le: "?n \<le> ncols y_score"
  have eq: "map (class_auc rc au y_cols (first_columns ?n y_score)) [0..<?n] =
        map (class_auc rc au y_cols y_score) [0..<?n]" for y_cols
    by (rule map_cong [OF refl]) (simp add: class_auc_first_columns le)
  have "classes_auc rc au y_true (first_columns ?n y_score) =
             classes_auc rc au y_true y_score"
    by (simp only: classes_auc_def Let_def eq)
  then show "geometric_roc_auc_score rc au y_true y_score =
             geometric_roc_auc_score rc au y_true (first_columns ?n y_score)"
    by (simp add: geometric_roc_auc_score_def Let_def)
qed

lemma auc_run_2:
  "classes_auc sk_roc_curve sk_auc [0, 1] \<lparr>ncols = 3, rows = [[1, 0, 7], [0, 1, 7]]\<rparr>
     = Inr [Fin 1, Fin 1]"
  by (simp add: classes_auc_def one_hot_encode_def np_unique_def class_auc_def column_of_def
      sk_roc_curve_def sk_auc_def rates_def np_diff_def np_trapz_def upt_rec [of 0 2] upt_rec [of 1 2])

text \<open>
  Claim C4 as stated fails: two classes and three score columns, and the function returns
  \<open>1\<close>.
\<close>

theorem geometric_roc_auc_extra_column_returns:
  "length (np_unique [0, 1 :: nat]) = 2 \<and>
   ncols \<lparr>ncols = 3, rows = [[1, 0, 7], [0, 1, 7]]\<rparr> \<noteq> 2 \<and>
   geometric_roc_auc_score sk_roc_curve sk_auc [0, 1] \<lparr>ncols = 3, rows = [[1, 0, 7], [0, 1, 7]]\<rparr>
     = Inr (Fin 1)"
  using auc_run_2 by (simp add: geometric_roc_auc_score_def np_unique_def)

theorem geometric_roc_auc_columns_witness:
  "ncols \<lparr>ncols = 1, rows = [[1], [0]]\<rparr> < length (np_unique [0, 1 :: nat]) \<and>
   (\<exists>e. geometric_roc_auc_score sk_roc_curve sk_auc [0, 1] \<lparr>ncols = 1, rows = [[1], [0]]\<rparr>
          = Inl e) \<and>
   length (np_unique [0, 1 :: nat]) \<le> ncols \<lparr>ncols = 3, rows = [[1, 0, 7], [0, 1, 7]]\<rparr> \<and>
   geometric_roc_auc_score sk_roc_curve sk_auc [0, 1] \<lparr>ncols = 3, rows = [[1, 0, 7], [0, 1, 7]]\<rparr>
     = geometric_roc_auc_score sk_roc_curve sk_auc [0, 1] \<lparr>ncols = 2, rows = [[1, 0], [0, 1]]\<rparr>"
  using geometric_roc_auc_columns [of "\<lparr>ncols = 1, rows = [[1], [0]]\<rparr>" "[0, 1]" sk_roc_curve sk_auc]
    geometric_roc_auc_columns [of "\<lparr>ncols = 3, rows = [[1, 0, 7], [0, 1, 7]]\<rparr>" "[0, 1]"
      sk_roc_curve sk_auc]
  by (simp add: np_unique_def first_columns_def numeral_2_eq_2)

section \<open>Properties of the separability score\<close>

















lemma fl_add_NaN_right [simp]: "fl_add x NaN = NaN"
  by (cases x) simp_all

lemma fl_div_NaN_right [simp]: "fl_div x NaN = NaN"
  by (cases x) simp_all
























end
